theory Spec2Isabelle
  imports Complex_Main
begin

section \<open>The scrubber dashboard script \<^verbatim>\<open>STapp.py\<close>\<close>

text \<open>
  The script is a straight-line program: three slider values, four numpy arrays of
  \<^verbatim>\<open>steps = 200\<close> samples computed from them, and two tabs that read the last sample of
  each array, compute an error and a health score and show alert banners.

  Python floats are modelled as \<^typ>\<open>real\<close>, numpy arrays as \<^typ>\<open>real list\<close>. The layout,
  the charts and the metric widgets are presentation and are left out; the banners
  (\<^verbatim>\<open>st.error\<close>, \<^verbatim>\<open>st.warning\<close>, \<^verbatim>\<open>st.success\<close>) are the observable output of the tabs and
  are collected in the order the script emits them.
\<close>

subsection \<open>Errors the script can raise\<close>

datatype py_error = ValueError | IndexError

subsection \<open>Sidebar: the three sliders\<close>

text \<open>
  \<^verbatim>\<open>gas_load = st.slider(..., 0.0, 1.0, 0.5)\<close>,
  \<^verbatim>\<open>fouling_factor = st.slider(..., 0.0, 1.0, 0.2)\<close>,
  \<^verbatim>\<open>noise_level = st.slider(..., 0.01, 0.1, 0.02)\<close>.
\<close>

record SimulationInputs =
  gas_load :: real
  fouling_factor :: real
  noise_level :: real

text \<open>The ranges the sliders enforce.\<close>

definition valid_inputs :: "SimulationInputs \<Rightarrow> bool" where
  "valid_inputs inp =
     (0 \<le> gas_load inp \<and> gas_load inp \<le> 1 \<and>
      0 \<le> fouling_factor inp \<and> fouling_factor inp \<le> 1 \<and>
      1 / 100 \<le> noise_level inp \<and> noise_level inp \<le> 1 / 10)"

text \<open>The sliders' default positions.\<close>

definition default_inputs :: SimulationInputs where
  "default_inputs = \<lparr>gas_load = 1 / 2, fouling_factor = 1 / 5, noise_level = 1 / 50\<rparr>"

subsection \<open>The numpy operations the script calls\<close>

text \<open>
  \<^verbatim>\<open>np.linspace(start, stop, num)\<close> with the default \<^verbatim>\<open>endpoint=True\<close>: the samples
  \<^verbatim>\<open>arange(0, num) * step + start\<close> with \<^verbatim>\<open>step = (stop - start) / (num - 1)\<close>, the last one
  overwritten by \<^verbatim>\<open>stop\<close>.
\<close>

definition linspace :: "real \<Rightarrow> real \<Rightarrow> nat \<Rightarrow> real list" where
  "linspace start stop num =
     (if num = 0 then []
      else if num = 1 then [start]
      else map (\<lambda>i. real i * ((stop - start) / real (num - 1)) + start) [0..<num - 1] @ [stop])"

text \<open>
  The global generator behind \<^verbatim>\<open>np.random\<close> is state the script reads and advances. Its
  state is modelled by the sequence of standard normal deviates it is going to deliver:
  \<open>g k\<close> is the \<open>k\<close>-th deviate still to come. Seeding the generator fixes this sequence.

  \<^verbatim>\<open>np.random.normal(loc, scale, n)\<close> raises \<^verbatim>\<open>ValueError\<close> for a negative scale; otherwise it
  consumes \<open>n\<close> deviates and returns \<^verbatim>\<open>loc + scale * z\<close> for each of them, leaving the
  generator \<open>n\<close> deviates further.
\<close>

type_synonym rng = "nat \<Rightarrow> real"

definition normal :: "real \<Rightarrow> real \<Rightarrow> nat \<Rightarrow> rng \<Rightarrow> py_error + (real list \<times> rng)" where
  "normal loc scale n g =
     (if scale < 0 then Inl ValueError
      else Inr (map (\<lambda>k. loc + scale * g k) [0..<n], \<lambda>k. g (k + n)))"

text \<open>\<^verbatim>\<open>a[-1]\<close>: the last element, \<^verbatim>\<open>IndexError\<close> on an empty array.\<close>

definition index_neg1 :: "real list \<Rightarrow> py_error + real" where
  "index_neg1 a = (if a = [] then Inl IndexError else Inr (a ! (length a - 1)))"

subsection \<open>Section 3 of the script: the four series\<close>

definition steps :: nat where
  "steps = 200"

text \<open>\<^verbatim>\<open>t = np.linspace(0, 100, steps)\<close>\<close>

definition t :: "real list" where
  "t = linspace 0 100 steps"

text \<open>\<^verbatim>\<open>pino_ph_target = 8.5 - (gas_load * 4.0) + 0.3 * np.sin(t/8)\<close>\<close>

definition pino_ph_target :: "real \<Rightarrow> real list" where
  "pino_ph_target gl = map (\<lambda>x. 8.5 - (gl * 4.0) + 0.3 * sin (x / 8)) t"

text \<open>\<^verbatim>\<open>ph_drift = fouling_factor * 1.5\<close>\<close>

definition ph_drift :: "real \<Rightarrow> real" where
  "ph_drift ff = ff * 1.5"

text \<open>
  \<^verbatim>\<open>sensor_ph_reading = pino_ph_target + ph_drift + np.random.normal(0, noise_level, steps)\<close>,
  given the array the sampler returned.
\<close>

definition sensor_ph_reading :: "real \<Rightarrow> real \<Rightarrow> real list \<Rightarrow> real list" where
  "sensor_ph_reading gl ff noise =
     map2 (+) (map (\<lambda>x. x + ph_drift ff) (pino_ph_target gl)) noise"

text \<open>\<^verbatim>\<open>pino_cond_target = 200 + (gas_load * 1800) + 50 * np.sin(t/5)\<close>\<close>

definition pino_cond_target :: "real \<Rightarrow> real list" where
  "pino_cond_target gl = map (\<lambda>x. 200 + (gl * 1800) + 50 * sin (x / 5)) t"

text \<open>\<^verbatim>\<open>cond_attenuation = fouling_factor * 800\<close>\<close>

definition cond_attenuation :: "real \<Rightarrow> real" where
  "cond_attenuation ff = ff * 800"

text \<open>
  \<^verbatim>\<open>sensor_cond_reading = pino_cond_target - cond_attenuation + np.random.normal(0, noise_level*100, steps)\<close>:
  the first assignment, before the clamp.
\<close>

definition sensor_cond_reading_unclamped :: "real \<Rightarrow> real \<Rightarrow> real list \<Rightarrow> real list" where
  "sensor_cond_reading_unclamped gl ff noise =
     map2 (+) (map (\<lambda>x. x - cond_attenuation ff) (pino_cond_target gl)) noise"

text \<open>\<^verbatim>\<open>sensor_cond_reading = np.maximum(sensor_cond_reading, 0)\<close>\<close>

definition sensor_cond_reading :: "real \<Rightarrow> real \<Rightarrow> real list \<Rightarrow> real list" where
  "sensor_cond_reading gl ff noise =
     map (\<lambda>x. max x 0) (sensor_cond_reading_unclamped gl ff noise)"

text \<open>
  The four arrays as the tabs see them, and the generator state the two sampler calls
  leave behind. The pH noise is drawn first, the conductivity noise second.
\<close>

record series =
  ph_target :: "real list"
  ph_reading :: "real list"
  cond_target :: "real list"
  cond_reading :: "real list"

definition generate :: "SimulationInputs \<Rightarrow> rng \<Rightarrow> py_error + (series \<times> rng)" where
  "generate inp g =
     (case normal 0 (noise_level inp) steps g of
        Inl e \<Rightarrow> Inl e
      | Inr (noise_ph, g1) \<Rightarrow>
          (case normal 0 (noise_level inp * 100) steps g1 of
             Inl e \<Rightarrow> Inl e
           | Inr (noise_cond, g2) \<Rightarrow>
               Inr (\<lparr>ph_target = pino_ph_target (gas_load inp),
                     ph_reading = sensor_ph_reading (gas_load inp) (fouling_factor inp) noise_ph,
                     cond_target = pino_cond_target (gas_load inp),
                     cond_reading =
                       sensor_cond_reading (gas_load inp) (fouling_factor inp) noise_cond\<rparr>,
                    g2)))"

subsection \<open>Section 4 of the script: the two tabs\<close>

text \<open>
  The banners. \<open>PH_DRIFT_CRITICAL\<close> and \<open>SCALING_CRITICAL\<close> are the two \<^verbatim>\<open>st.error\<close> calls,
  \<open>HIGH_SATURATION_RISK\<close> the \<^verbatim>\<open>st.warning\<close>, \<open>PH_NOMINAL\<close> and \<open>COND_NOMINAL\<close> the two
  \<^verbatim>\<open>st.success\<close> calls.
\<close>

datatype banner =
  PH_DRIFT_CRITICAL | PH_NOMINAL | HIGH_SATURATION_RISK | SCALING_CRITICAL | COND_NOMINAL

record diagnostic =
  error :: real
  health :: real
  banners :: "banner list"

text \<open>
  \<^verbatim>\<open>ph_error = abs(sensor_ph_reading[-1] - pino_ph_target[-1])\<close>,
  \<^verbatim>\<open>ph_health = max(0, 100 - ph_error * 30)\<close>
\<close>

definition ph_error :: "real \<Rightarrow> real \<Rightarrow> real" where
  "ph_error reading_last target_last = \<bar>reading_last - target_last\<bar>"

definition ph_health :: "real \<Rightarrow> real" where
  "ph_health err = max 0 (100 - err * 30)"

text \<open>\<^verbatim>\<open>if ph_error > 1.0: st.error(...) else: st.success(...)\<close>\<close>

definition ph_banners :: "real \<Rightarrow> banner list" where
  "ph_banners err = (if err > 1.0 then [PH_DRIFT_CRITICAL] else [PH_NOMINAL])"

definition tab1 :: "series \<Rightarrow> py_error + diagnostic" where
  "tab1 s =
     (case index_neg1 (ph_reading s) of
        Inl e \<Rightarrow> Inl e
      | Inr r \<Rightarrow>
          (case index_neg1 (ph_target s) of
             Inl e \<Rightarrow> Inl e
           | Inr p \<Rightarrow>
               Inr \<lparr>error = ph_error r p,
                    health = ph_health (ph_error r p),
                    banners = ph_banners (ph_error r p)\<rparr>))"

text \<open>
  \<^verbatim>\<open>cond_error = abs(sensor_cond_reading[-1] - pino_cond_target[-1])\<close>,
  \<^verbatim>\<open>cond_health = max(0, 100 - cond_error / 10)\<close>
\<close>

definition cond_error :: "real \<Rightarrow> real \<Rightarrow> real" where
  "cond_error reading_last target_last = \<bar>reading_last - target_last\<bar>"

definition cond_health :: "real \<Rightarrow> real" where
  "cond_health err = max 0 (100 - err / 10)"

text \<open>
  \<^verbatim>\<open>if pino_cond_target[-1] > 1800: st.warning(...)\<close> and then, on its own,
  \<^verbatim>\<open>if sensor_cond_reading[-1] < pino_cond_target[-1] * 0.7: st.error(...)\<close>
  \<^verbatim>\<open>elif cond_health > 90: st.success(...)\<close>
\<close>

definition cond_banners :: "real \<Rightarrow> real \<Rightarrow> banner list" where
  "cond_banners reading_last target_last =
     (if target_last > 1800 then [HIGH_SATURATION_RISK] else []) @
     (if reading_last < target_last * 0.7 then [SCALING_CRITICAL]
      else if cond_health (cond_error reading_last target_last) > 90 then [COND_NOMINAL]
      else [])"

definition tab2 :: "series \<Rightarrow> py_error + diagnostic" where
  "tab2 s =
     (case index_neg1 (cond_reading s) of
        Inl e \<Rightarrow> Inl e
      | Inr r \<Rightarrow>
          (case index_neg1 (cond_target s) of
             Inl e \<Rightarrow> Inl e
           | Inr p \<Rightarrow>
               Inr \<lparr>error = cond_error r p,
                    health = cond_health (cond_error r p),
                    banners = cond_banners r p\<rparr>))"

subsection \<open>One run of the script\<close>

record run =
  sequences :: series
  ph_diag :: diagnostic
  cond_diag :: diagnostic

definition app :: "SimulationInputs \<Rightarrow> rng \<Rightarrow> py_error + (run \<times> rng)" where
  "app inp g =
     (case generate inp g of
        Inl e \<Rightarrow> Inl e
      | Inr (s, g') \<Rightarrow>
          (case tab1 s of
             Inl e \<Rightarrow> Inl e
           | Inr d1 \<Rightarrow>
               (case tab2 s of
                  Inl e \<Rightarrow> Inl e
                | Inr d2 \<Rightarrow> Inr (\<lparr>sequences = s, ph_diag = d1, cond_diag = d2\<rparr>, g'))))"

subsection \<open>Auxiliary notions for stating results\<close>

text \<open>A generator all of whose deviates are 0: the run without noise.\<close>

definition silent :: rng where
  "silent = (\<lambda>k. 0)"

text \<open>What the conductivity tab shows in a run of the script.\<close>

definition cond_tab_of :: "SimulationInputs \<Rightarrow> rng \<Rightarrow> py_error + diagnostic" where
  "cond_tab_of inp g = (case app inp g of Inl e \<Rightarrow> Inl e | Inr (r, g') \<Rightarrow> Inr (cond_diag r))"

section \<open>Basic facts\<close>

lemma length_linspace: "length (linspace a b n) = n"
  by (simp add: linspace_def)

lemma length_t: "length t = 200"
  by (simp add: t_def steps_def length_linspace)

lemma t_nth:
  assumes "i < 200"
  shows "t ! i = 100 * real i / 199"
proof (cases "i < 199")
  case True
  then show ?thesis
    by (simp add: t_def steps_def linspace_def nth_append)
next
  case False
  with assms have "i = 199" by simp
  then show ?thesis
    by (simp add: t_def steps_def linspace_def nth_append)
qed


lemma normal_nonneg:
  "0 \<le> scale \<Longrightarrow>
     normal loc scale n g = Inr (map (\<lambda>k. loc + scale * g k) [0..<n], \<lambda>k. g (k + n))"
  by (simp add: normal_def)

lemma length_pino_ph_target: "length (pino_ph_target gl) = 200"
  by (simp add: pino_ph_target_def length_t)

lemma length_pino_cond_target: "length (pino_cond_target gl) = 200"
  by (simp add: pino_cond_target_def length_t)

lemma pino_ph_target_nth:
  "i < 200 \<Longrightarrow> pino_ph_target gl ! i = 8.5 - gl * 4.0 + 0.3 * sin (t ! i / 8)"
  by (simp add: pino_ph_target_def length_t)

lemma pino_cond_target_nth:
  "i < 200 \<Longrightarrow> pino_cond_target gl ! i = 200 + gl * 1800 + 50 * sin (t ! i / 5)"
  by (simp add: pino_cond_target_def length_t)

lemma length_sensor_ph_reading:
  "length noise = 200 \<Longrightarrow> length (sensor_ph_reading gl ff noise) = 200"
  by (simp add: sensor_ph_reading_def length_pino_ph_target)

lemma sensor_ph_reading_nth:
  "i < 200 \<Longrightarrow> length noise = 200 \<Longrightarrow>
     sensor_ph_reading gl ff noise ! i = pino_ph_target gl ! i + ff * 1.5 + noise ! i"
  by (simp add: sensor_ph_reading_def ph_drift_def length_pino_ph_target)

lemma length_sensor_cond_reading_unclamped:
  "length noise = 200 \<Longrightarrow> length (sensor_cond_reading_unclamped gl ff noise) = 200"
  by (simp add: sensor_cond_reading_unclamped_def length_pino_cond_target)

lemma sensor_cond_reading_unclamped_nth:
  "i < 200 \<Longrightarrow> length noise = 200 \<Longrightarrow>
     sensor_cond_reading_unclamped gl ff noise ! i = pino_cond_target gl ! i - ff * 800 + noise ! i"
  by (simp add: sensor_cond_reading_unclamped_def cond_attenuation_def length_pino_cond_target)

lemma length_sensor_cond_reading:
  "length noise = 200 \<Longrightarrow> length (sensor_cond_reading gl ff noise) = 200"
  by (simp add: sensor_cond_reading_def length_sensor_cond_reading_unclamped)

lemma sensor_cond_reading_nth:
  "i < 200 \<Longrightarrow> length noise = 200 \<Longrightarrow>
     sensor_cond_reading gl ff noise ! i =
       max (sensor_cond_reading_unclamped gl ff noise ! i) 0"
  by (simp add: sensor_cond_reading_def length_sensor_cond_reading_unclamped)

lemma generate_nonneg:
  assumes "0 \<le> noise_level inp"
  shows "generate inp g =
     Inr (\<lparr>ph_target = pino_ph_target (gas_load inp),
           ph_reading = sensor_ph_reading (gas_load inp) (fouling_factor inp)
             (map (\<lambda>k. 0 + noise_level inp * g k) [0..<200]),
           cond_target = pino_cond_target (gas_load inp),
           cond_reading = sensor_cond_reading (gas_load inp) (fouling_factor inp)
             (map (\<lambda>k. 0 + noise_level inp * 100 * g (k + 200)) [0..<200])\<rparr>,
          \<lambda>k. g (k + 200 + 200))"
  using assms by (simp add: generate_def normal_def steps_def)


lemma index_neg1_200: "length a = 200 \<Longrightarrow> index_neg1 a = Inr (a ! 199)"
  by (auto simp add: index_neg1_def)


lemma app_nonneg:
  assumes "0 \<le> noise_level inp"
  shows "\<exists>s g'. generate inp g = Inr (s, g') \<and>
           length (ph_target s) = 200 \<and> length (ph_reading s) = 200 \<and>
           length (cond_target s) = 200 \<and> length (cond_reading s) = 200 \<and>
           app inp g =
             Inr (\<lparr>sequences = s,
                   ph_diag =
                     \<lparr>error = ph_error (ph_reading s ! 199) (ph_target s ! 199),
                      health = ph_health (ph_error (ph_reading s ! 199) (ph_target s ! 199)),
                      banners = ph_banners (ph_error (ph_reading s ! 199) (ph_target s ! 199))\<rparr>,
                   cond_diag =
                     \<lparr>error = cond_error (cond_reading s ! 199) (cond_target s ! 199),
                      health = cond_health (cond_error (cond_reading s ! 199) (cond_target s ! 199)),
                      banners = cond_banners (cond_reading s ! 199) (cond_target s ! 199)\<rparr>\<rparr>,
                  g')"
  using assms
  by (simp add: generate_nonneg app_def tab1_def tab2_def index_neg1_200
      length_pino_ph_target length_pino_cond_target length_sensor_ph_reading
      length_sensor_cond_reading)

section \<open>The signal generator\<close>

text \<open>
  Claim C1. For every index \<open>i\<close> in \<open>0..199\<close>, with \<open>t\<close> the grid of 200 evenly spaced
  points over \<open>[0, 100]\<close>, the pH target is \<open>8.5 - gasLoad*4.0 + 0.3*sin(t[i]/8)\<close> and the
  pH reading is the target plus \<open>foulingFactor*1.5\<close> plus the \<open>i\<close>-th sample of the array
  the sampler returns for mean 0, standard deviation \<open>noiseLevel\<close> and size 200. That
  sample is \<open>0 + noiseLevel * z\<close> for the \<open>i\<close>-th deviate \<open>z\<close> of the generator, so distinct
  indices use distinct deviates.
\<close>

theorem ph_channel_samples:
  assumes "0 \<le> noise_level inp" and "i < 200"
  shows "\<exists>noise g1 s g2.
           normal 0 (noise_level inp) steps g = Inr (noise, g1) \<and>
           generate inp g = Inr (s, g2) \<and>
           length t = 200 \<and> length (ph_target s) = 200 \<and> length (ph_reading s) = 200 \<and>
           t ! i = 100 * real i / 199 \<and>
           ph_target s ! i = 8.5 - gas_load inp * 4.0 + 0.3 * sin (t ! i / 8) \<and>
           ph_reading s ! i = ph_target s ! i + fouling_factor inp * 1.5 + noise ! i \<and>
           noise ! i = 0 + noise_level inp * g i"
  using assms
  by (simp add: generate_nonneg normal_nonneg steps_def length_t t_nth
      length_pino_ph_target length_sensor_ph_reading pino_ph_target_nth sensor_ph_reading_nth)

text \<open>The default sliders at \<open>i = 0\<close>, where \<open>t[0] = 0\<close>, with first deviate 1.\<close>

theorem ph_channel_samples_witness:
  "0 \<le> noise_level default_inputs \<and> (0::nat) < 200 \<and>
   (\<exists>noise g1 s g2.
      normal 0 (noise_level default_inputs) steps (\<lambda>k. real k + 1) = Inr (noise, g1) \<and>
      generate default_inputs (\<lambda>k. real k + 1) = Inr (s, g2) \<and>
      ph_target s ! 0 = 6.5 \<and> ph_reading s ! 0 = 6.82 \<and> noise ! 0 = 0.02)"
  using ph_channel_samples [of default_inputs 0 "\<lambda>k. real k + 1"]
  by (auto simp add: default_inputs_def)


text \<open>
  Claim C2. For every index \<open>i\<close> in \<open>0..199\<close> the conductivity target is
  \<open>200 + gasLoad*1800 + 50*sin(t[i]/5)\<close> and the conductivity reading is
  \<open>max(0, target[i] - foulingFactor*800 + noise[i])\<close>, where \<open>noise\<close> is the array the
  sampler returns for mean 0, standard deviation \<open>noiseLevel*100\<close> and size 200, drawn
  after the 200 samples of the pH channel.
\<close>

theorem cond_channel_samples:
  assumes "0 \<le> noise_level inp" and "i < 200"
  shows "\<exists>noise_ph g1 noise g2 s.
           normal 0 (noise_level inp) steps g = Inr (noise_ph, g1) \<and>
           normal 0 (noise_level inp * 100) steps g1 = Inr (noise, g2) \<and>
           generate inp g = Inr (s, g2) \<and>
           length (cond_target s) = 200 \<and> length (cond_reading s) = 200 \<and>
           cond_target s ! i = 200 + gas_load inp * 1800 + 50 * sin (t ! i / 5) \<and>
           cond_reading s ! i = max 0 (cond_target s ! i - fouling_factor inp * 800 + noise ! i) \<and>
           noise ! i = 0 + noise_level inp * 100 * g (i + 200)"
proof -
  from assms(1) have scale: "0 \<le> noise_level inp * 100" by simp
  let ?n1 = "map (\<lambda>k. 0 + noise_level inp * g k) [0..<200]"
  let ?g1 = "\<lambda>k. g (k + 200)"
  let ?n2 = "map (\<lambda>k. 0 + noise_level inp * 100 * ?g1 k) [0..<200]"
  let ?g2 = "\<lambda>k. ?g1 (k + 200)"
  have d1: "normal 0 (noise_level inp) steps g = Inr (?n1, ?g1)"
    using assms(1) by (simp add: normal_nonneg steps_def)
  have d2: "normal 0 (noise_level inp * 100) steps ?g1 = Inr (?n2, ?g2)"
    using scale by (simp add: normal_nonneg steps_def)
  have len: "length ?n2 = 200" by simp
  have gen: "generate inp g =
      Inr (\<lparr>ph_target = pino_ph_target (gas_load inp),
            ph_reading = sensor_ph_reading (gas_load inp) (fouling_factor inp) ?n1,
            cond_target = pino_cond_target (gas_load inp),
            cond_reading = sensor_cond_reading (gas_load inp) (fouling_factor inp) ?n2\<rparr>, ?g2)"
    by (simp add: generate_def d1 d2)
  have rd: "sensor_cond_reading (gas_load inp) (fouling_factor inp) ?n2 ! i =
      max 0 (pino_cond_target (gas_load inp) ! i - fouling_factor inp * 800 + ?n2 ! i)"
    using assms(2) len
    by (simp only: sensor_cond_reading_nth sensor_cond_reading_unclamped_nth max.commute)
  have nz: "?n2 ! i = 0 + noise_level inp * 100 * g (i + 200)"
    using assms(2) by simp
  show ?thesis
    using d1 d2 gen rd nz assms(2)
    by (simp add: length_pino_cond_target length_sensor_cond_reading pino_cond_target_nth)
qed

text \<open>The default sliders at \<open>i = 0\<close>, the deviate in use there being \<open>-200\<close>.\<close>

theorem cond_channel_samples_witness:
  "0 \<le> noise_level default_inputs \<and> (0::nat) < 200 \<and>
   (\<exists>noise_ph g1 noise g2 s.
      normal 0 (noise_level default_inputs) steps (\<lambda>k. - real k) = Inr (noise_ph, g1) \<and>
      normal 0 (noise_level default_inputs * 100) steps g1 = Inr (noise, g2) \<and>
      generate default_inputs (\<lambda>k. - real k) = Inr (s, g2) \<and>
      cond_target s ! 0 = 1100 \<and> cond_reading s ! 0 = 540 \<and> noise ! 0 = - 400)"
  using cond_channel_samples [of default_inputs 0 "\<lambda>k. - real k"]
  by (auto simp add: default_inputs_def t_nth)

section \<open>The diagnostic evaluator\<close>

text \<open>
  Claim C3. For the sequences of every run, the evaluator computes per channel the error
  \<open>|reading[last] - target[last]|\<close> of the final samples (index 199), and the health
  scores \<open>max(0, 100 - error*30)\<close> for pH and \<open>max(0, 100 - error/10)\<close> for conductivity.
\<close>

theorem diagnostic_error_health:
  assumes "0 \<le> noise_level inp"
  shows "\<exists>r g'.
           app inp g = Inr (r, g') \<and> generate inp g = Inr (sequences r, g') \<and>
           length (ph_target (sequences r)) = 200 \<and> length (ph_reading (sequences r)) = 200 \<and>
           length (cond_target (sequences r)) = 200 \<and>
           length (cond_reading (sequences r)) = 200 \<and>
           error (ph_diag r) =
             \<bar>ph_reading (sequences r) ! 199 - ph_target (sequences r) ! 199\<bar> \<and>
           health (ph_diag r) = max 0 (100 - error (ph_diag r) * 30) \<and>
           error (cond_diag r) =
             \<bar>cond_reading (sequences r) ! 199 - cond_target (sequences r) ! 199\<bar> \<and>
           health (cond_diag r) = max 0 (100 - error (cond_diag r) / 10)"
proof -
  from app_nonneg [OF assms, of g] obtain s g' where
    gen: "generate inp g = Inr (s, g')" and
    len: "length (ph_target s) = 200" "length (ph_reading s) = 200"
         "length (cond_target s) = 200" "length (cond_reading s) = 200" and
    run: "app inp g =
      Inr (\<lparr>sequences = s,
            ph_diag =
              \<lparr>error = ph_error (ph_reading s ! 199) (ph_target s ! 199),
               health = ph_health (ph_error (ph_reading s ! 199) (ph_target s ! 199)),
               banners = ph_banners (ph_error (ph_reading s ! 199) (ph_target s ! 199))\<rparr>,
            cond_diag =
              \<lparr>error = cond_error (cond_reading s ! 199) (cond_target s ! 199),
               health = cond_health (cond_error (cond_reading s ! 199) (cond_target s ! 199)),
               banners = cond_banners (cond_reading s ! 199) (cond_target s ! 199)\<rparr>\<rparr>,
           g')"
    by blast
  show ?thesis
    unfolding run using gen len
    by (simp add: ph_error_def ph_health_def cond_error_def cond_health_def)
qed


lemma pino_cond_target_last: "pino_cond_target gl ! 199 = 200 + gl * 1800 + 50 * sin 20"
  by (simp add: pino_cond_target_nth t_nth)

lemma pino_cond_target_last_bounds:
  "150 + gl * 1800 \<le> pino_cond_target gl ! 199" "pino_cond_target gl ! 199 \<le> 250 + gl * 1800"
proof -
  have "- 1 \<le> sin (20::real)" "sin (20::real) \<le> 1" by simp_all
  then show "150 + gl * 1800 \<le> pino_cond_target gl ! 199"
    and "pino_cond_target gl ! 199 \<le> 250 + gl * 1800"
    unfolding pino_cond_target_last by linarith+
qed

lemma silent_run:
  assumes "0 \<le> nl"
  shows "generate \<lparr>gas_load = gl, fouling_factor = ff, noise_level = nl\<rparr> silent =
     Inr (\<lparr>ph_target = pino_ph_target gl,
           ph_reading = sensor_ph_reading gl ff (replicate 200 0),
           cond_target = pino_cond_target gl,
           cond_reading = sensor_cond_reading gl ff (replicate 200 0)\<rparr>, silent)"
proof -
  have "map (\<lambda>k. 0::real) [0..<200] = replicate 200 0"
    by (simp add: map_replicate_const)
  with assms show ?thesis
    by (simp add: generate_nonneg silent_def)
qed

lemma silent_ph_last:
  "sensor_ph_reading gl ff (replicate 200 0) ! 199 = pino_ph_target gl ! 199 + ff * 1.5"
  by (simp add: sensor_ph_reading_nth)

lemma silent_cond_last:
  assumes "ff * 800 \<le> 150 + gl * 1800"
  shows "sensor_cond_reading gl ff (replicate 200 0) ! 199 = pino_cond_target gl ! 199 - ff * 800"
  using assms pino_cond_target_last_bounds(1) [of gl]
  by (simp add: sensor_cond_reading_nth sensor_cond_reading_unclamped_nth)

text \<open>
  The default sliders without noise: pH error 0.3 and health 91, conductivity error 160
  and health 84.
\<close>

theorem diagnostic_error_health_witness:
  "0 \<le> noise_level default_inputs \<and>
   (\<exists>r g'. app default_inputs silent = Inr (r, g') \<and>
      error (ph_diag r) = 0.3 \<and> health (ph_diag r) = 91 \<and>
      error (cond_diag r) = 160 \<and> health (cond_diag r) = 84)"
proof -
  have nl: "0 \<le> noise_level default_inputs"
    by (simp add: default_inputs_def)
  from diagnostic_error_health [OF nl, of silent] obtain r g' where
    run: "app default_inputs silent = Inr (r, g')" and
    gen: "generate default_inputs silent = Inr (sequences r, g')" and
    e1: "error (ph_diag r) = \<bar>ph_reading (sequences r) ! 199 - ph_target (sequences r) ! 199\<bar>" and
    h1: "health (ph_diag r) = max 0 (100 - error (ph_diag r) * 30)" and
    e2: "error (cond_diag r) =
           \<bar>cond_reading (sequences r) ! 199 - cond_target (sequences r) ! 199\<bar>" and
    h2: "health (cond_diag r) = max 0 (100 - error (cond_diag r) / 10)"
    by blast
  from gen have seq: "sequences r =
      \<lparr>ph_target = pino_ph_target (1 / 2),
       ph_reading = sensor_ph_reading (1 / 2) (1 / 5) (replicate 200 0),
       cond_target = pino_cond_target (1 / 2),
       cond_reading = sensor_cond_reading (1 / 2) (1 / 5) (replicate 200 0)\<rparr>"
    by (simp add: default_inputs_def silent_run)
  have "error (ph_diag r) = 0.3"
    by (simp add: e1 seq silent_ph_last)
  moreover from this have "health (ph_diag r) = 91"
    by (simp add: h1)
  moreover have "error (cond_diag r) = 160"
    by (simp add: e2 seq silent_cond_last)
  moreover from this have "health (cond_diag r) = 84"
    by (simp add: h2)
  ultimately show ?thesis
    using nl run by blast
qed



subsection \<open>The conductivity banners\<close>

lemma cond_banners_high:
  "HIGH_SATURATION_RISK \<in> set (cond_banners r p) \<longleftrightarrow> p > 1800"
  by (simp add: cond_banners_def)

lemma cond_banners_scaling:
  "SCALING_CRITICAL \<in> set (cond_banners r p) \<longleftrightarrow> r < p * 0.7"
  by (simp add: cond_banners_def)

lemma cond_banners_nominal:
  "COND_NOMINAL \<in> set (cond_banners r p) \<longleftrightarrow>
     \<not> r < p * 0.7 \<and> cond_health (cond_error r p) > 90"
  by (simp add: cond_banners_def)

lemma cond_banners_gap:
  "\<not> r < p * 0.7 \<Longrightarrow> cond_health (cond_error r p) \<le> 90 \<Longrightarrow>
     cond_banners r p = (if p > 1800 then [HIGH_SATURATION_RISK] else [])"
  by (simp add: cond_banners_def)

lemma app_cond_banners:
  assumes "0 \<le> noise_level inp"
  shows "\<exists>r g'. app inp g = Inr (r, g') \<and> generate inp g = Inr (sequences r, g') \<and>
           error (cond_diag r) =
             cond_error (cond_reading (sequences r) ! 199) (cond_target (sequences r) ! 199) \<and>
           health (cond_diag r) = cond_health (error (cond_diag r)) \<and>
           banners (cond_diag r) =
             cond_banners (cond_reading (sequences r) ! 199) (cond_target (sequences r) ! 199)"
proof -
  from app_nonneg [OF assms, of g] obtain s g' where
    gen: "generate inp g = Inr (s, g')" and
    run: "app inp g =
      Inr (\<lparr>sequences = s,
            ph_diag =
              \<lparr>error = ph_error (ph_reading s ! 199) (ph_target s ! 199),
               health = ph_health (ph_error (ph_reading s ! 199) (ph_target s ! 199)),
               banners = ph_banners (ph_error (ph_reading s ! 199) (ph_target s ! 199))\<rparr>,
            cond_diag =
              \<lparr>error = cond_error (cond_reading s ! 199) (cond_target s ! 199),
               health = cond_health (cond_error (cond_reading s ! 199) (cond_target s ! 199)),
               banners = cond_banners (cond_reading s ! 199) (cond_target s ! 199)\<rparr>\<rparr>,
           g')"
    by blast
  show ?thesis
    unfolding run using gen by simp
qed

lemma silent_app_cond:
  assumes "0 \<le> nl" and "ff * 800 \<le> 150 + gl * 1800"
  shows "cond_tab_of \<lparr>gas_load = gl, fouling_factor = ff, noise_level = nl\<rparr> silent =
     Inr \<lparr>error = cond_error (pino_cond_target gl ! 199 - ff * 800) (pino_cond_target gl ! 199),
          health = cond_health
            (cond_error (pino_cond_target gl ! 199 - ff * 800) (pino_cond_target gl ! 199)),
          banners = cond_banners (pino_cond_target gl ! 199 - ff * 800) (pino_cond_target gl ! 199)\<rparr>"
proof -
  let ?inp = "\<lparr>gas_load = gl, fouling_factor = ff, noise_level = nl\<rparr>"
  have nl: "0 \<le> noise_level ?inp" using assms(1) by simp
  from app_nonneg [OF nl, of silent] show ?thesis
    by (auto simp add: cond_tab_of_def silent_run [OF assms(1)] silent_cond_last [OF assms(2)])
qed

text \<open>
  Claim C5. In the conductivity tab \<open>HIGH_SATURATION_RISK\<close> is shown if and only if
  \<open>target[last] > 1800\<close>, and \<open>SCALING_CRITICAL\<close> if and only if
  \<open>reading[last] < target[last]*0.7\<close>. The two tests are independent: there are valid
  slider positions for which both banners are shown in the same run.
\<close>

theorem cond_alerts_independent:
  assumes "0 \<le> noise_level inp"
  shows "(\<exists>r g'.
            app inp g = Inr (r, g') \<and>
            (HIGH_SATURATION_RISK \<in> set (banners (cond_diag r)) \<longleftrightarrow>
               cond_target (sequences r) ! 199 > 1800) \<and>
            (SCALING_CRITICAL \<in> set (banners (cond_diag r)) \<longleftrightarrow>
               cond_reading (sequences r) ! 199 < cond_target (sequences r) ! 199 * 0.7)) \<and>
         (\<exists>inp' r' g''.
            valid_inputs inp' \<and> app inp' silent = Inr (r', g'') \<and>
            banners (cond_diag r') = [HIGH_SATURATION_RISK, SCALING_CRITICAL])"
proof
  from app_cond_banners [OF assms, of g] obtain r g' where
    run: "app inp g = Inr (r, g')" and
    b: "banners (cond_diag r) =
          cond_banners (cond_reading (sequences r) ! 199) (cond_target (sequences r) ! 199)"
    by blast
  show "\<exists>r g'.
          app inp g = Inr (r, g') \<and>
          (HIGH_SATURATION_RISK \<in> set (banners (cond_diag r)) \<longleftrightarrow>
             cond_target (sequences r) ! 199 > 1800) \<and>
          (SCALING_CRITICAL \<in> set (banners (cond_diag r)) \<longleftrightarrow>
             cond_reading (sequences r) ! 199 < cond_target (sequences r) ! 199 * 0.7)"
    using run by (auto simp add: b cond_banners_high cond_banners_scaling)
next
  let ?inp = "\<lparr>gas_load = 1, fouling_factor = 1, noise_level = 1 / 50\<rparr>"
  have v: "valid_inputs ?inp" by (simp add: valid_inputs_def)
  have nl: "0 \<le> noise_level ?inp" by simp
  from app_cond_banners [OF nl, of silent] obtain r g' where
    run: "app ?inp silent = Inr (r, g')" and
    gen: "generate ?inp silent = Inr (sequences r, g')" and
    b: "banners (cond_diag r) =
          cond_banners (cond_reading (sequences r) ! 199) (cond_target (sequences r) ! 199)"
    by blast
  from gen have "sequences r =
      \<lparr>ph_target = pino_ph_target 1,
       ph_reading = sensor_ph_reading 1 1 (replicate 200 0),
       cond_target = pino_cond_target 1,
       cond_reading = sensor_cond_reading 1 1 (replicate 200 0)\<rparr>"
    by (simp add: silent_run)
  then have seq: "cond_target (sequences r) = pino_cond_target 1"
      "cond_reading (sequences r) = sensor_cond_reading 1 1 (replicate 200 0)"
    by simp_all
  have rd: "sensor_cond_reading 1 1 (replicate 200 0) ! 199 = pino_cond_target 1 ! 199 - 800"
    using silent_cond_last [of 1 1] by simp
  have "banners (cond_diag r) = [HIGH_SATURATION_RISK, SCALING_CRITICAL]"
    using pino_cond_target_last_bounds [of 1]
    by (simp add: b seq rd cond_banners_def)
  with v run show "\<exists>inp' r' g''.
      valid_inputs inp' \<and> app inp' silent = Inr (r', g'') \<and>
      banners (cond_diag r') = [HIGH_SATURATION_RISK, SCALING_CRITICAL]"
    by blast
qed

text \<open>The default sliders without noise: neither of the two alerts is shown.\<close>

theorem cond_alerts_independent_witness:
  "0 \<le> noise_level default_inputs \<and>
   (\<exists>r g'. app default_inputs silent = Inr (r, g') \<and>
      HIGH_SATURATION_RISK \<notin> set (banners (cond_diag r)) \<and>
      SCALING_CRITICAL \<notin> set (banners (cond_diag r)))"
proof -
  have nl: "0 \<le> noise_level default_inputs"
    by (simp add: default_inputs_def)
  from cond_alerts_independent [OF nl, of silent] obtain r g' where
    run: "app default_inputs silent = Inr (r, g')" and
    hi: "HIGH_SATURATION_RISK \<in> set (banners (cond_diag r)) \<longleftrightarrow>
           cond_target (sequences r) ! 199 > 1800" and
    sc: "SCALING_CRITICAL \<in> set (banners (cond_diag r)) \<longleftrightarrow>
           cond_reading (sequences r) ! 199 < cond_target (sequences r) ! 199 * 0.7"
    by blast
  from app_cond_banners [OF nl, of silent] run
  have "generate default_inputs silent = Inr (sequences r, g')"
    by auto
  then have "sequences r =
      \<lparr>ph_target = pino_ph_target (1 / 2),
       ph_reading = sensor_ph_reading (1 / 2) (1 / 5) (replicate 200 0),
       cond_target = pino_cond_target (1 / 2),
       cond_reading = sensor_cond_reading (1 / 2) (1 / 5) (replicate 200 0)\<rparr>"
    by (simp add: default_inputs_def silent_run)
  then have seq: "cond_target (sequences r) = pino_cond_target (1 / 2)"
      "cond_reading (sequences r) = sensor_cond_reading (1 / 2) (1 / 5) (replicate 200 0)"
    by simp_all
  have rd: "sensor_cond_reading (1 / 2) (1 / 5) (replicate 200 0) ! 199 =
      pino_cond_target (1 / 2) ! 199 - 160"
    using silent_cond_last [of "1 / 5" "1 / 2"] by simp
  have "\<not> cond_target (sequences r) ! 199 > 1800"
    using pino_cond_target_last_bounds [of "1 / 2"] by (simp add: seq)
  moreover have "\<not> cond_reading (sequences r) ! 199 < cond_target (sequences r) ! 199 * 0.7"
    using pino_cond_target_last_bounds [of "1 / 2"] by (simp add: seq rd)
  ultimately show ?thesis
    using nl run hi sc by blast
qed

text \<open>
  Claim C6 says that no status at all is produced when \<open>SCALING_CRITICAL\<close> is not set and
  the health is at most 90. With the gas load at 1 and the other sliders at their
  defaults, without noise, scaling is not set and the health is 84, yet the tab shows
  \<open>HIGH_SATURATION_RISK\<close>: the warning is tested by an \<^verbatim>\<open>if\<close> of its own, before the
  \<^verbatim>\<open>if\<close>/\<^verbatim>\<open>elif\<close> that chooses between the scaling alert and the nominal banner.
\<close>

theorem cond_gap_banner_counterexample:
  "cond_tab_of \<lparr>gas_load = 1, fouling_factor = 1 / 5, noise_level = 1 / 50\<rparr> silent =
     Inr \<lparr>error = 160, health = 84, banners = [HIGH_SATURATION_RISK]\<rparr>"
proof -
  let ?p = "pino_cond_target 1 ! 199"
  have p: "1950 \<le> ?p" "?p \<le> 2050"
    using pino_cond_target_last_bounds [of 1] by simp_all
  have e: "cond_error (?p - 160) ?p = 160"
    by (simp add: cond_error_def)
  have h: "cond_health 160 = 84"
    by (simp add: cond_health_def)
  have b: "cond_banners (?p - 160) ?p = [HIGH_SATURATION_RISK]"
    using p by (simp add: cond_banners_def e h)
  show ?thesis
    using p(1) by (simp add: silent_app_cond e h b)
qed

text \<open>
  Claim C6, amended. The nominal banner is shown if and only if \<open>SCALING_CRITICAL\<close> is
  not set and the health exceeds 90. When \<open>SCALING_CRITICAL\<close> is not set and the health is
  at most 90, neither the scaling alert nor the nominal banner is shown; the only banner
  the tab can then show is \<open>HIGH_SATURATION_RISK\<close>, and it does so exactly when
  \<open>target[last] > 1800\<close>.
\<close>

theorem cond_nominal_iff:
  assumes "0 \<le> noise_level inp"
  shows "\<exists>r g'.
           app inp g = Inr (r, g') \<and>
           (COND_NOMINAL \<in> set (banners (cond_diag r)) \<longleftrightarrow>
              SCALING_CRITICAL \<notin> set (banners (cond_diag r)) \<and> health (cond_diag r) > 90) \<and>
           (SCALING_CRITICAL \<notin> set (banners (cond_diag r)) \<and> health (cond_diag r) \<le> 90 \<longrightarrow>
              banners (cond_diag r) =
                (if cond_target (sequences r) ! 199 > 1800 then [HIGH_SATURATION_RISK] else []))"
proof -
  from app_cond_banners [OF assms, of g] obtain r g' where
    run: "app inp g = Inr (r, g')" and
    e: "error (cond_diag r) =
          cond_error (cond_reading (sequences r) ! 199) (cond_target (sequences r) ! 199)" and
    h: "health (cond_diag r) = cond_health (error (cond_diag r))" and
    b: "banners (cond_diag r) =
          cond_banners (cond_reading (sequences r) ! 199) (cond_target (sequences r) ! 199)"
    by blast
  let ?r = "cond_reading (sequences r) ! 199" and ?p = "cond_target (sequences r) ! 199"
  have nominal: "COND_NOMINAL \<in> set (banners (cond_diag r)) \<longleftrightarrow>
      SCALING_CRITICAL \<notin> set (banners (cond_diag r)) \<and> health (cond_diag r) > 90"
    by (simp add: b h e cond_banners_nominal cond_banners_scaling)
  have gap: "SCALING_CRITICAL \<notin> set (banners (cond_diag r)) \<and> health (cond_diag r) \<le> 90 \<longrightarrow>
      banners (cond_diag r) = (if ?p > 1800 then [HIGH_SATURATION_RISK] else [])"
  proof
    assume "SCALING_CRITICAL \<notin> set (banners (cond_diag r)) \<and> health (cond_diag r) \<le> 90"
    then have "\<not> ?r < ?p * 0.7" and "cond_health (cond_error ?r ?p) \<le> 90"
      by (simp_all add: b h e cond_banners_scaling)
    then show "banners (cond_diag r) = (if ?p > 1800 then [HIGH_SATURATION_RISK] else [])"
      unfolding b by (rule cond_banners_gap)
  qed
  from run nominal gap show ?thesis by blast
qed

text \<open>
  The default sliders without noise fall into the gap: no scaling, health 84, and the
  tab shows nothing.
\<close>

theorem cond_nominal_iff_witness:
  "0 \<le> noise_level default_inputs \<and>
   (\<exists>r g'. app default_inputs silent = Inr (r, g') \<and>
      SCALING_CRITICAL \<notin> set (banners (cond_diag r)) \<and> health (cond_diag r) = 84 \<and>
      banners (cond_diag r) = [])"
proof -
  have nl: "0 \<le> noise_level default_inputs"
    by (simp add: default_inputs_def)
  let ?p = "pino_cond_target (1 / 2) ! 199"
  have p: "1050 \<le> ?p" "?p \<le> 1150"
    using pino_cond_target_last_bounds [of "1 / 2"] by simp_all
  have tab: "cond_tab_of default_inputs silent =
      Inr \<lparr>error = cond_error (?p - 1 / 5 * 800) ?p,
           health = cond_health (cond_error (?p - 1 / 5 * 800) ?p),
           banners = cond_banners (?p - 1 / 5 * 800) ?p\<rparr>"
    unfolding default_inputs_def using p(1) by (intro silent_app_cond) simp_all
  have e: "cond_error (?p - 160) ?p = 160"
    by (simp add: cond_error_def)
  have h: "cond_health 160 = 84"
    by (simp add: cond_health_def)
  have b: "cond_banners (?p - 160) ?p = []"
    using p by (simp add: cond_banners_def e h)
  from cond_nominal_iff [OF nl, of silent] obtain r g' where
    run: "app default_inputs silent = Inr (r, g')" and
    gap: "SCALING_CRITICAL \<notin> set (banners (cond_diag r)) \<and> health (cond_diag r) \<le> 90 \<longrightarrow>
      banners (cond_diag r) =
        (if cond_target (sequences r) ! 199 > 1800 then [HIGH_SATURATION_RISK] else [])"
    by blast
  from tab run have d: "cond_diag r = \<lparr>error = 160, health = 84, banners = []\<rparr>"
    by (simp add: cond_tab_of_def e h b)
  then have "SCALING_CRITICAL \<notin> set (banners (cond_diag r))" "health (cond_diag r) = 84"
      "banners (cond_diag r) = []"
    by simp_all
  with nl run show ?thesis by blast
qed

section \<open>Properties of the generated series\<close>

lemma valid_inputs_noise: "valid_inputs inp \<Longrightarrow> 0 \<le> noise_level inp"
  by (simp add: valid_inputs_def)

lemma sensor_cond_reading_nonneg: "\<forall>x \<in> set (sensor_cond_reading gl ff noise). 0 \<le> x"
  by (simp add: sensor_cond_reading_def)

text \<open>
  Claim C7. For all slider positions in their ranges and every sequence of deviates the
  generator may deliver, the run produces its series and every element of the
  conductivity reading is at least 0.
\<close>

theorem cond_reading_nonneg:
  assumes "valid_inputs inp"
  shows "\<exists>s g'. generate inp g = Inr (s, g') \<and> length (cond_reading s) = 200 \<and>
           (\<forall>x \<in> set (cond_reading s). 0 \<le> x)"
proof -
  from assms have nl: "0 \<le> noise_level inp"
    by (rule valid_inputs_noise)
  show ?thesis
    by (simp add: generate_nonneg [OF nl] length_sensor_cond_reading
        sensor_cond_reading_nonneg)
qed

text \<open>
  The default sliders with every deviate at \<open>-1000\<close>: the first sample before the clamp
  is \<open>1100 - 160 - 2000\<close>, and the reading is 0.
\<close>

theorem cond_reading_nonneg_witness:
  "valid_inputs default_inputs \<and>
   (\<exists>s g'. generate default_inputs (\<lambda>k. - 1000) = Inr (s, g') \<and>
      cond_reading s ! 0 = 0 \<and> 0 \<le> cond_reading s ! 0)"
proof -
  have v: "valid_inputs default_inputs"
    by (simp add: valid_inputs_def default_inputs_def)
  from cond_reading_nonneg [OF v, of "\<lambda>k. - 1000"] obtain s g' where
    gen: "generate default_inputs (\<lambda>k. - 1000) = Inr (s, g')" and
    len: "length (cond_reading s) = 200" and
    nonneg: "\<forall>x \<in> set (cond_reading s). 0 \<le> x"
    by blast
  from len have "cond_reading s ! 0 \<in> set (cond_reading s)"
    by simp
  with nonneg have pos: "0 \<le> cond_reading s ! 0"
    by blast
  from gen have "cond_reading s =
      sensor_cond_reading (1 / 2) (1 / 5) (map (\<lambda>k. 0 + 1 / 50 * 100 * (- 1000)) [0..<200])"
    by (auto simp add: generate_nonneg default_inputs_def)
  then have "cond_reading s ! 0 = 0"
    by (simp add: sensor_cond_reading_nth sensor_cond_reading_unclamped_nth
        pino_cond_target_nth t_nth)
  with v gen pos show ?thesis by blast
qed

text \<open>
  Claim C8. With the other sliders, the index and the noise samples fixed, raising the
  fouling factor by \<open>d > 0\<close> raises the pH reading by exactly \<open>1.5 * d\<close> and lowers the
  conductivity reading before the clamp by exactly \<open>800 * d\<close>; the targets do not move,
  and the clamped conductivity reading does not increase.
\<close>

theorem fouling_shifts_readings:
  assumes "0 \<le> noise_level inp" and "i < 200" and "0 < d"
  shows "\<exists>noise_ph g1 noise_cond g2 s s'.
           normal 0 (noise_level inp) steps g = Inr (noise_ph, g1) \<and>
           normal 0 (noise_level inp * 100) steps g1 = Inr (noise_cond, g2) \<and>
           generate inp g = Inr (s, g2) \<and>
           generate (inp\<lparr>fouling_factor := fouling_factor inp + d\<rparr>) g = Inr (s', g2) \<and>
           ph_target s' = ph_target s \<and> cond_target s' = cond_target s \<and>
           ph_reading s' ! i = ph_reading s ! i + 1.5 * d \<and>
           ph_reading s ! i < ph_reading s' ! i \<and>
           sensor_cond_reading_unclamped (gas_load inp) (fouling_factor inp + d) noise_cond ! i =
             sensor_cond_reading_unclamped (gas_load inp) (fouling_factor inp) noise_cond ! i
               - 800 * d \<and>
           cond_reading s ! i =
             max (sensor_cond_reading_unclamped (gas_load inp) (fouling_factor inp) noise_cond ! i) 0 \<and>
           cond_reading s' ! i =
             max (sensor_cond_reading_unclamped (gas_load inp) (fouling_factor inp + d) noise_cond ! i) 0 \<and>
           cond_reading s' ! i \<le> cond_reading s ! i"
proof -
  let ?gl = "gas_load inp" and ?ff = "fouling_factor inp"
  let ?inp' = "inp\<lparr>fouling_factor := ?ff + d\<rparr>"
  let ?n1 = "map (\<lambda>k. 0 + noise_level inp * g k) [0..<200]"
  let ?g1 = "\<lambda>k. g (k + 200)"
  let ?n2 = "map (\<lambda>k. 0 + noise_level inp * 100 * g (k + 200)) [0..<200]"
  let ?g2 = "\<lambda>k. g (k + 200 + 200)"
  let ?s = "\<lparr>ph_target = pino_ph_target ?gl,
            ph_reading = sensor_ph_reading ?gl ?ff ?n1,
            cond_target = pino_cond_target ?gl,
            cond_reading = sensor_cond_reading ?gl ?ff ?n2\<rparr>"
  let ?s' = "\<lparr>ph_target = pino_ph_target ?gl,
            ph_reading = sensor_ph_reading ?gl (?ff + d) ?n1,
            cond_target = pino_cond_target ?gl,
            cond_reading = sensor_cond_reading ?gl (?ff + d) ?n2\<rparr>"
  have len: "length ?n1 = 200" "length ?n2 = 200" by simp_all
  from assms(1) have scale: "0 \<le> noise_level inp * 100" by simp
  have d1: "normal 0 (noise_level inp) steps g = Inr (?n1, ?g1)"
    using assms(1) by (simp add: normal_nonneg steps_def)
  have d2: "normal 0 (noise_level inp * 100) steps ?g1 = Inr (?n2, ?g2)"
    using scale by (simp add: normal_nonneg steps_def)
  have gen: "generate inp g = Inr (?s, ?g2)"
    using assms(1) by (rule generate_nonneg)
  have "0 \<le> noise_level ?inp'" using assms(1) by simp
  then have "generate ?inp' g =
      Inr (\<lparr>ph_target = pino_ph_target (gas_load ?inp'),
            ph_reading = sensor_ph_reading (gas_load ?inp') (fouling_factor ?inp')
              (map (\<lambda>k. 0 + noise_level ?inp' * g k) [0..<200]),
            cond_target = pino_cond_target (gas_load ?inp'),
            cond_reading = sensor_cond_reading (gas_load ?inp') (fouling_factor ?inp')
              (map (\<lambda>k. 0 + noise_level ?inp' * 100 * g (k + 200)) [0..<200])\<rparr>, ?g2)"
    by (rule generate_nonneg)
  then have gen': "generate ?inp' g = Inr (?s', ?g2)"
    by simp
  have ph: "sensor_ph_reading ?gl (?ff + d) ?n1 ! i = sensor_ph_reading ?gl ?ff ?n1 ! i + 1.5 * d"
    using assms(2) len(1) by (simp only: sensor_ph_reading_nth) (simp add: algebra_simps)
  have raw: "sensor_cond_reading_unclamped ?gl (?ff + d) ?n2 ! i =
      sensor_cond_reading_unclamped ?gl ?ff ?n2 ! i - 800 * d"
    using assms(2) len(2)
    by (simp only: sensor_cond_reading_unclamped_nth) (simp add: algebra_simps)
  have c: "sensor_cond_reading ?gl ?ff ?n2 ! i =
      max (sensor_cond_reading_unclamped ?gl ?ff ?n2 ! i) 0"
    using assms(2) len(2) by (rule sensor_cond_reading_nth)
  have c': "sensor_cond_reading ?gl (?ff + d) ?n2 ! i =
      max (sensor_cond_reading_unclamped ?gl (?ff + d) ?n2 ! i) 0"
    using assms(2) len(2) by (rule sensor_cond_reading_nth)
  have mono: "sensor_cond_reading ?gl (?ff + d) ?n2 ! i \<le> sensor_cond_reading ?gl ?ff ?n2 ! i"
    unfolding c c' raw using assms(3) by simp
  have up: "sensor_ph_reading ?gl ?ff ?n1 ! i < sensor_ph_reading ?gl (?ff + d) ?n1 ! i"
    unfolding ph using assms(3) by simp
  show ?thesis
    apply (rule exI [of _ ?n1], rule exI [of _ ?g1], rule exI [of _ ?n2], rule exI [of _ ?g2])
    apply (rule exI [of _ ?s], rule exI [of _ ?s'])
    using d1 d2 gen gen' ph raw c c' mono up
    by (simp only: series.simps)
qed


text \<open>
  The default sliders without noise at index 0, the fouling factor raised from 0.2 to
  0.7: the pH reading goes from 6.8 to 7.55, the conductivity reading starts at 940.
\<close>

theorem fouling_shifts_readings_witness:
  "0 \<le> noise_level default_inputs \<and> (0::nat) < 200 \<and> (0::real) < 1 / 2 \<and>
   (\<exists>s s' g2.
      generate default_inputs silent = Inr (s, g2) \<and>
      generate (default_inputs\<lparr>fouling_factor := fouling_factor default_inputs + 1 / 2\<rparr>) silent =
        Inr (s', g2) \<and>
      ph_reading s ! 0 = 6.8 \<and> ph_reading s' ! 0 = 7.55 \<and>
      cond_reading s ! 0 = 940 \<and> cond_reading s' ! 0 \<le> 940)"
proof -
  have nl: "0 \<le> noise_level default_inputs"
    by (simp add: default_inputs_def)
  from fouling_shifts_readings [OF nl, of 0 "1 / 2" silent] obtain s s' g2 where
    gen: "generate default_inputs silent = Inr (s, g2)" and
    gen': "generate (default_inputs\<lparr>fouling_factor := fouling_factor default_inputs + 1 / 2\<rparr>)
             silent = Inr (s', g2)" and
    ph: "ph_reading s' ! 0 = ph_reading s ! 0 + 1.5 * (1 / 2)" and
    cond: "cond_reading s' ! 0 \<le> cond_reading s ! 0"
    by auto
  from gen have "s =
      \<lparr>ph_target = pino_ph_target (1 / 2),
       ph_reading = sensor_ph_reading (1 / 2) (1 / 5) (replicate 200 0),
       cond_target = pino_cond_target (1 / 2),
       cond_reading = sensor_cond_reading (1 / 2) (1 / 5) (replicate 200 0)\<rparr>"
    by (simp add: default_inputs_def silent_run)
  then have v: "ph_reading s ! 0 = 6.8" "cond_reading s ! 0 = 940"
    by (simp_all add: sensor_ph_reading_nth pino_ph_target_nth sensor_cond_reading_nth
        sensor_cond_reading_unclamped_nth pino_cond_target_nth t_nth)
  from ph v(1) have "ph_reading s' ! 0 = 7.55" by simp
  with nl gen gen' v cond show ?thesis by auto
qed

subsection \<open>Dependence on the generator and on the sliders\<close>





lemma generate_cond_target:
  "generate inp g = Inr (s, g') \<Longrightarrow> cond_target s = pino_cond_target (gas_load inp)"
  by (auto simp add: generate_def split: sum.splits prod.splits)

text \<open>
  Claim C10. Whether \<open>HIGH_SATURATION_RISK\<close> is shown depends on the gas load only: two
  runs with the same gas load, whatever their fouling factors, noise levels and deviates,
  have the same conductivity target and agree on the banner, which is shown exactly when
  \<open>200 + gasLoad*1800 + 50*sin(20) > 1800\<close>.
\<close>

theorem high_saturation_by_gas_load:
  assumes "0 \<le> noise_level inp1" and "0 \<le> noise_level inp2"
    and "gas_load inp1 = gas_load inp2"
  shows "\<exists>r1 g1' r2 g2'.
           app inp1 g1 = Inr (r1, g1') \<and> app inp2 g2 = Inr (r2, g2') \<and>
           cond_target (sequences r1) = cond_target (sequences r2) \<and>
           (HIGH_SATURATION_RISK \<in> set (banners (cond_diag r1)) \<longleftrightarrow>
              HIGH_SATURATION_RISK \<in> set (banners (cond_diag r2))) \<and>
           (HIGH_SATURATION_RISK \<in> set (banners (cond_diag r1)) \<longleftrightarrow>
              200 + gas_load inp1 * 1800 + 50 * sin 20 > 1800)"
proof -
  from app_cond_banners [OF assms(1), of g1] obtain r1 g1' where
    run1: "app inp1 g1 = Inr (r1, g1')" and
    gen1: "generate inp1 g1 = Inr (sequences r1, g1')" and
    b1: "banners (cond_diag r1) =
          cond_banners (cond_reading (sequences r1) ! 199) (cond_target (sequences r1) ! 199)"
    by blast
  from app_cond_banners [OF assms(2), of g2] obtain r2 g2' where
    run2: "app inp2 g2 = Inr (r2, g2')" and
    gen2: "generate inp2 g2 = Inr (sequences r2, g2')" and
    b2: "banners (cond_diag r2) =
          cond_banners (cond_reading (sequences r2) ! 199) (cond_target (sequences r2) ! 199)"
    by blast
  from gen1 have t1: "cond_target (sequences r1) = pino_cond_target (gas_load inp1)"
    by (rule generate_cond_target)
  from gen2 have t2: "cond_target (sequences r2) = pino_cond_target (gas_load inp2)"
    by (rule generate_cond_target)
  have same: "cond_target (sequences r1) = cond_target (sequences r2)"
    by (simp add: t1 t2 assms(3))
  have h1: "HIGH_SATURATION_RISK \<in> set (banners (cond_diag r1)) \<longleftrightarrow>
      200 + gas_load inp1 * 1800 + 50 * sin 20 > 1800"
    by (simp only: b1 cond_banners_high t1 pino_cond_target_last)
  have h2: "HIGH_SATURATION_RISK \<in> set (banners (cond_diag r2)) \<longleftrightarrow>
      200 + gas_load inp1 * 1800 + 50 * sin 20 > 1800"
    by (simp only: b2 cond_banners_high t2 pino_cond_target_last assms(3))
  from run1 run2 same h1 h2 show ?thesis by blast
qed

text \<open>
  Gas load 1 with a clean sensor and no noise, and with a fully fouled sensor and growing
  deviates: the warning is shown in both runs.
\<close>

theorem high_saturation_by_gas_load_witness:
  "0 \<le> noise_level \<lparr>gas_load = 1, fouling_factor = 0, noise_level = 1 / 100\<rparr> \<and>
   0 \<le> noise_level \<lparr>gas_load = 1, fouling_factor = 1, noise_level = 1 / 10\<rparr> \<and>
   (\<exists>r1 g1' r2 g2'.
      app \<lparr>gas_load = 1, fouling_factor = 0, noise_level = 1 / 100\<rparr> silent = Inr (r1, g1') \<and>
      app \<lparr>gas_load = 1, fouling_factor = 1, noise_level = 1 / 10\<rparr> (\<lambda>k. real k) = Inr (r2, g2') \<and>
      HIGH_SATURATION_RISK \<in> set (banners (cond_diag r1)) \<and>
      HIGH_SATURATION_RISK \<in> set (banners (cond_diag r2)))"
proof -
  let ?a = "\<lparr>gas_load = 1, fouling_factor = 0, noise_level = 1 / 100\<rparr>"
  let ?b = "\<lparr>gas_load = 1, fouling_factor = 1, noise_level = 1 / 10\<rparr>"
  have a: "0 \<le> noise_level ?a" and b: "0 \<le> noise_level ?b" and ab: "gas_load ?a = gas_load ?b"
    by simp_all
  have "- 1 \<le> sin (20::real)" by simp
  then have "200 + 1 * 1800 + 50 * sin (20::real) > 1800" by linarith
  then have big: "200 + gas_load ?a * 1800 + 50 * sin 20 > 1800" by simp
  from high_saturation_by_gas_load [OF a b ab, of silent "\<lambda>k. real k"] big a b
  show ?thesis by blast
qed

end
